theory Spec2Isabelle
  imports Main "HOL-Library.Word" "HOL-Library.Sublist"
begin

section \<open>Go values\<close>

text \<open>
  The development embeds \<^verbatim>\<open>go/internal/feast/transformation/transformation_service.go\<close>.
  Go's \<^verbatim>\<open>int64\<close> is a 64-bit word read in two's complement (\<open>sint\<close>, \<open><s\<close>); its
  \<^verbatim>\<open>+\<close> wraps around. A byte is an 8-bit word. A Go function that returns
  \<^verbatim>\<open>(x, error)\<close> returns a pair whose second component is \<open>None\<close> for a nil error. A
  run-time panic is not a return: it is the constructor \<open>Panic\<close> of \<open>outcome\<close>.
\<close>

type_synonym byte = "8 word"
type_synonym int64 = "64 word"

datatype error =
    InvalidSeek int64 nat   \<comment> \<open>"invalid seek: new offset %d out of range [0 %d]"\<close>
  | UnsupportedSeekMode int \<comment> \<open>"unsupported seek mode %d"\<close>
  | External string         \<comment> \<open>an error value produced by a library the file calls\<close>
  | TypeInferenceError      \<comment> \<open>a JSON array that fits none of the column kinds\<close>
  | RangeError              \<comment> \<open>an element that the declared type cannot represent\<close>
  | TypeError               \<comment> \<open>a column that has no conversion to the declared type\<close>

datatype panic =
    SliceBoundsOutOfRange      \<comment> \<open>\<^verbatim>\<open>s[i:]\<close> with \<open>i\<close> outside \<open>[0, len s]\<close>\<close>
  | IndexOutOfRange nat nat    \<comment> \<open>"index out of range [i] with length n"\<close>
  | MakeSliceLenOutOfRange     \<comment> \<open>\<^verbatim>\<open>make([]T, n)\<close> with negative \<open>n\<close>\<close>

datatype 'a outcome = Return 'a | Panic panic

text \<open>\<^verbatim>\<open>int64(len(s))\<close>: a Go slice has fewer than \<open>2 ^ 63\<close> elements.\<close>

definition len64 :: "'a list \<Rightarrow> int64" where
  "len64 xs = word_of_nat (length xs)"

section \<open>ByteSliceWriter\<close>

record ByteSliceWriter =
  buf :: "byte list"
  offset :: int64

text \<open>The constants of package \<^verbatim>\<open>io\<close>.\<close>

definition SeekStart :: int where "SeekStart = 0"
definition SeekCurrent :: int where "SeekCurrent = 1"
definition SeekEnd :: int where "SeekEnd = 2"

text \<open>
  The built-in \<^verbatim>\<open>copy(dst, src)\<close> where \<open>dst\<close> is the slice \<^verbatim>\<open>b[off:]\<close>: it overwrites
  \<open>min (len dst) (len src)\<close> elements of \<open>b\<close> from index \<open>off\<close> on, since \<open>dst\<close> shares the
  array of \<open>b\<close>.
\<close>

definition copy_at :: "'a list \<Rightarrow> nat \<Rightarrow> 'a list \<Rightarrow> 'a list" where
  "copy_at b off src =
     (let n = min (length b - off) (length src)
      in take off b @ take n src @ drop (off + n) b)"

text \<open>
  \<^verbatim>\<open>func (w *ByteSliceWriter) Write(p []byte) (n int, err error)\<close>. The slice expression
  \<^verbatim>\<open>w.buf[w.offset:]\<close> panics when the offset is negative or beyond the length.
\<close>

definition Write :: "ByteSliceWriter \<Rightarrow> byte list \<Rightarrow> (ByteSliceWriter \<times> nat \<times> error option) outcome" where
  "Write w p =
     (let capacity = length p in
      if sint (offset w) < 0 \<or> int (length (buf w)) < sint (offset w) then Panic SliceBoundsOutOfRange
      else
        let off = nat (sint (offset w));
            writeSlice_len = length (buf w) - off;
            buf1 = (if writeSlice_len < capacity
                    then buf w @ replicate (capacity - writeSlice_len) 0
                    else buf w);
            buf2 = copy_at buf1 off p
        in Return (\<lparr>buf = buf2, offset = offset w + word_of_nat capacity\<rparr>, capacity, None))"

text \<open>
  \<^verbatim>\<open>func (w *ByteSliceWriter) Seek(offset int64, whence int) (int64, error)\<close>. The result is
  the writer after the call together with the returned pair; an error return leaves the
  writer as it was.
\<close>

definition Seek :: "ByteSliceWriter \<Rightarrow> int64 \<Rightarrow> int \<Rightarrow> ByteSliceWriter \<times> int64 \<times> error option" where
  "Seek w off whence =
     (if whence = SeekStart then
        (if offset w \<noteq> off \<and> (off <s 0 \<or> len64 (buf w) <s off)
         then (w, 0, Some (InvalidSeek off (length (buf w))))
         else (w\<lparr>offset := off\<rparr>, off, None))
      else if whence = SeekCurrent then
        (let newOffset = offset w + off in
         if newOffset \<noteq> off \<and> (newOffset <s 0 \<or> len64 (buf w) <s newOffset)
         then (w, 0, Some (InvalidSeek off (length (buf w))))
         else (w\<lparr>offset := offset w + off\<rparr>, offset w + off, None))
      else if whence = SeekEnd then
        (let newOffset = len64 (buf w) + off in
         if newOffset \<noteq> off \<and> (newOffset <s 0 \<or> len64 (buf w) <s newOffset)
         then (w, 0, Some (InvalidSeek off (length (buf w))))
         else (w\<lparr>offset := off\<rparr>, off, None))
      else (w, 0, Some (UnsupportedSeekMode whence)))"

text \<open>The cursor of a writer lies within its buffer.\<close>

definition cursor_ok :: "ByteSliceWriter \<Rightarrow> bool" where
  "cursor_ok w \<longleftrightarrow> 0 \<le> sint (offset w) \<and> sint (offset w) \<le> int (length (buf w))"

section \<open>Arrow records, feature vectors and feature views\<close>

text \<open>
  Modelled from the spec: the Arrow library and the packages \<^verbatim>\<open>model\<close>, \<^verbatim>\<open>onlineserving\<close> and
  \<^verbatim>\<open>serving\<close> are not among the sources; the types below have the fields and methods that
  \<^verbatim>\<open>transformation_service.go\<close> reads. A column is a typed array (floating-point columns
  are left out), a record is a schema, one column per field and a row count.
\<close>

datatype DataType = Int32Type | Int64Type | StringType | BooleanType

datatype arrow_array =
    Int32Array "32 word list"
  | Int64Array "64 word list"
  | StringArray "string list"
  | BooleanArray "bool list"

fun array_Len :: "arrow_array \<Rightarrow> nat" where
  "array_Len (Int32Array xs) = length xs"
| "array_Len (Int64Array xs) = length xs"
| "array_Len (StringArray xs) = length xs"
| "array_Len (BooleanArray xs) = length xs"

fun array_DataType :: "arrow_array \<Rightarrow> DataType" where
  "array_DataType (Int32Array xs) = Int32Type"
| "array_DataType (Int64Array xs) = Int64Type"
| "array_DataType (StringArray xs) = StringType"
| "array_DataType (BooleanArray xs) = BooleanType"

record Field =
  field_Name :: string
  field_Type :: DataType

record arrow_record =
  schema_Fields :: "Field list"
  record_Columns :: "arrow_array list"
  record_NumRows :: int

text \<open>\<^verbatim>\<open>array.NewRecord(arrow.NewSchema(fields, nil), columns, nrows)\<close>.\<close>

definition NewRecord :: "Field list \<Rightarrow> arrow_array list \<Rightarrow> int \<Rightarrow> arrow_record" where
  "NewRecord inputFields inputColumns nrows =
     \<lparr>schema_Fields = inputFields, record_Columns = inputColumns, record_NumRows = nrows\<rparr>"

text \<open>\<^verbatim>\<open>rec.Column(i)\<close> indexes the slice of columns.\<close>

definition Column :: "arrow_record \<Rightarrow> nat \<Rightarrow> arrow_array outcome" where
  "Column r i =
     (if i < length (record_Columns r) then Return (record_Columns r ! i)
      else Panic (IndexOutOfRange i (length (record_Columns r))))"

datatype FieldStatus = INVALID | PRESENT | NULL_VALUE | NOT_FOUND | OUTSIDE_MAX_AGE

record Timestamp =
  Seconds :: int
  Nanos :: int

text \<open>A \<^verbatim>\<open>*timestamppb.Timestamp\<close> is a pointer: \<open>None\<close> is nil.\<close>

record FeatureVector =
  fv_Name :: string
  Values :: arrow_array
  Statuses :: "FieldStatus list"
  Timestamps :: "Timestamp option list"

record Feature =
  feature_Name :: string

record FeatureViewProjection =
  projection_Features :: "Feature list"

text \<open>\<^verbatim>\<open>Projection\<close> is a pointer: \<open>None\<close> is nil.\<close>

record BaseFeatureView =
  base_Name :: string
  Projection :: "FeatureViewProjection option"

record OnDemandFeatureView =
  Base :: BaseFeatureView

record TransformFeaturesRequest =
  OnDemandFeatureViewName :: string
  Project :: string
  TransformationInput :: "byte list"

record grpcTransformationService =
  endpoint :: string
  project :: string

text \<open>
  The libraries and services the file calls are parameters. A library call that returns
  \<^verbatim>\<open>(x, error)\<close> is a function into \<open>error + 'a\<close>. The two calls of the Arrow stream
  writer act on the \<open>ByteSliceWriter\<close> they are given. \<open>Now k\<close> is the reading of the clock
  at the \<open>k\<close>-th call of \<^verbatim>\<open>timestamppb.Now()\<close>. \<open>'v\<close> is the type of a
  \<^verbatim>\<open>*prototypes.Value\<close>, \<open>'r\<close> the type of an \<^verbatim>\<open>*ipc.FileReader\<close>.
\<close>

record ('v, 'r) world =
  ProtoValuesToArrowArray :: "'v list \<Rightarrow> int \<Rightarrow> error + arrow_array"
  NewFileWriter :: "ByteSliceWriter \<Rightarrow> ByteSliceWriter \<times> error option"
  FileWriter_Write :: "arrow_record \<Rightarrow> ByteSliceWriter \<Rightarrow> ByteSliceWriter \<times> error option"
  Dial :: "string \<Rightarrow> error option"
  TransformFeatures :: "TransformFeaturesRequest \<Rightarrow> error + byte list"
  NewFileReader :: "byte list \<Rightarrow> error + 'r"
  FileReader_Record :: "'r \<Rightarrow> int \<Rightarrow> error + arrow_record"
  Now :: "nat \<Rightarrow> Timestamp"

section \<open>ExtractTransformationResponse\<close>

text \<open>
  \<^verbatim>\<open>strings.Split(s, sep)\<close>: the substrings of \<open>s\<close> between the occurrences of \<open>sep\<close>,
  found from the left and not overlapping. \<open>Split_from sep cur s\<close> has read \<open>cur\<close> since the
  last separator. With an empty separator Go splits after each character.
\<close>

fun Split_from :: "string \<Rightarrow> string \<Rightarrow> string \<Rightarrow> string list" where
  "Split_from sep cur [] = [cur]"
| "Split_from sep cur (c # cs) =
     (if sep \<noteq> [] \<and> prefix sep (c # cs)
      then cur # Split_from sep [] (drop (length sep) (c # cs))
      else Split_from sep (cur @ [c]) cs)"

definition Split :: "string \<Rightarrow> string \<Rightarrow> string list" where
  "Split s sep = (if sep = [] then map (\<lambda>c. [c]) s else Split_from sep [] s)"

text \<open>Lines 127 to 132: \<^verbatim>\<open>strings.Split(field.Name, "__")[1]\<close> indexes without a check.\<close>

definition featureName_of :: "bool \<Rightarrow> Field \<Rightarrow> string outcome" where
  "featureName_of fullFeatureNames field =
     (if fullFeatureNames then
        (let parts = Split (field_Name field) ''__'' in
         if 1 < length parts then Return (parts ! 1)
         else Panic (IndexOutOfRange 1 (length parts)))
      else Return (field_Name field))"

text \<open>Lines 134 to 138: the value of \<^verbatim>\<open>dropFeature\<close> after the loop over the projection.\<close>

definition dropFeature_after :: "Feature list \<Rightarrow> string \<Rightarrow> bool" where
  "dropFeature_after features featureName =
     fold (\<lambda>feature dropFeature. if featureName = feature_Name feature then False else dropFeature)
       features True"

text \<open>Lines 124 to 141.\<close>

definition dropFeature_of :: "OnDemandFeatureView \<Rightarrow> bool \<Rightarrow> Field \<Rightarrow> bool outcome" where
  "dropFeature_of featureView fullFeatureNames field =
     (case Projection (Base featureView) of
        None \<Rightarrow> Return False
      | Some projection \<Rightarrow>
          (case featureName_of fullFeatureNames field of
             Panic p \<Rightarrow> Panic p
           | Return featureName \<Rightarrow>
               Return (dropFeature_after (projection_Features projection) featureName)))"

text \<open>
  Lines 147 to 153: the two slices made with \<open>numRows\<close> zero values and the loop that fills
  them; the third component counts the calls of \<^verbatim>\<open>timestamppb.Now()\<close>.
\<close>

definition stamp_rows ::
  "(nat \<Rightarrow> Timestamp) \<Rightarrow> nat \<Rightarrow> nat \<Rightarrow> FieldStatus list \<times> Timestamp option list \<times> nat" where
  "stamp_rows now numRows tick =
     fold (\<lambda>idx (statuses, timestamps, k).
             (statuses[idx := PRESENT], timestamps[idx := Some (now k)], Suc k))
       [0..<numRows] (replicate numRows INVALID, replicate numRows None, tick)"

text \<open>
  Lines 123 to 161: the loop over the fields of the schema at index \<open>idx\<close>, with the
  result so far and the count of clock readings.
\<close>

fun fields_loop ::
  "(nat \<Rightarrow> Timestamp) \<Rightarrow> OnDemandFeatureView \<Rightarrow> arrow_record \<Rightarrow> int \<Rightarrow> bool \<Rightarrow>
   nat \<Rightarrow> Field list \<Rightarrow> FeatureVector list \<times> nat \<Rightarrow> (FeatureVector list \<times> nat) outcome" where
  "fields_loop now featureView outRecord numRows fullFeatureNames idx [] (result, tick) =
     Return (result, tick)"
| "fields_loop now featureView outRecord numRows fullFeatureNames idx (field # rest) (result, tick) =
     (case dropFeature_of featureView fullFeatureNames field of
        Panic p \<Rightarrow> Panic p
      | Return dropFeature \<Rightarrow>
          if dropFeature
          then fields_loop now featureView outRecord numRows fullFeatureNames (Suc idx) rest (result, tick)
          else if numRows < 0 then Panic MakeSliceLenOutOfRange
          else
            (case stamp_rows now (nat numRows) tick of
               (statuses, timestamps, tick') \<Rightarrow>
                 (case Column outRecord idx of
                    Panic p \<Rightarrow> Panic p
                  | Return col \<Rightarrow>
                      fields_loop now featureView outRecord numRows fullFeatureNames (Suc idx) rest
                        (result @ [\<lparr>fv_Name = field_Name field, Values = col,
                                     Statuses = statuses, Timestamps = timestamps\<rparr>], tick'))))"

definition ExtractTransformationResponse ::
  "('v, 'r) world \<Rightarrow> OnDemandFeatureView \<Rightarrow> byte list \<Rightarrow> int \<Rightarrow> bool \<Rightarrow>
   (FeatureVector list option \<times> error option) outcome" where
  "ExtractTransformationResponse wld featureView arrowBytes numRows fullFeatureNames =
     (case NewFileReader wld arrowBytes of
        Inl err \<Rightarrow> Return (None, Some err)
      | Inr arrowReader \<Rightarrow>
          (case FileReader_Record wld arrowReader numRows of
             Inl err \<Rightarrow> Return (None, Some err)
           | Inr outRecord \<Rightarrow>
               (case fields_loop (Now wld) featureView outRecord numRows fullFeatureNames 0
                       (schema_Fields outRecord) ([], 0) of
                  Panic p \<Rightarrow> Panic p
                | Return (result, tick) \<Rightarrow> Return (Some result, None))))"

text \<open>
  What the loop of lines 147 to 160 makes of a kept column: \<open>numRows\<close> statuses, all
  \<open>PRESENT\<close>, \<open>numRows\<close> consecutive readings of the clock, and a column of the decoded
  record as values.
\<close>

definition stamped :: "(nat \<Rightarrow> Timestamp) \<Rightarrow> arrow_record \<Rightarrow> int \<Rightarrow> FeatureVector \<Rightarrow> bool" where
  "stamped now r numRows v \<longleftrightarrow>
     0 \<le> numRows \<and> Statuses v = replicate (nat numRows) PRESENT \<and>
     (\<exists>k. Timestamps v = map (\<lambda>i. Some (now (k + i))) [0..<nat numRows]) \<and>
     Values v \<in> set (record_Columns r)"

text \<open>The values, statuses and timestamps of a vector all have \<open>numRows\<close> entries.\<close>

definition rows_consistent :: "int \<Rightarrow> FeatureVector \<Rightarrow> bool" where
  "rows_consistent numRows v \<longleftrightarrow>
     int (array_Len (Values v)) = numRows \<and> int (length (Statuses v)) = numRows \<and>
     int (length (Timestamps v)) = numRows"

section \<open>GetTransformation\<close>

text \<open>
  Lines 42 to 45: the loop over the feature vectors appends one field and one column for
  each, in the order of the slice.
\<close>

fun add_features :: "FeatureVector list \<Rightarrow> Field list \<times> arrow_array list \<Rightarrow> Field list \<times> arrow_array list" where
  "add_features [] (inputFields, inputColumns) = (inputFields, inputColumns)"
| "add_features (vector # rest) (inputFields, inputColumns) =
     add_features rest
       (inputFields @ [\<lparr>field_Name = fv_Name vector, field_Type = array_DataType (Values vector)\<rparr>],
        inputColumns @ [Values vector])"

text \<open>
  Lines 47 to 54 and 56 to 63: a \<^verbatim>\<open>range\<close> over a map visits each entry once, in an order
  Go leaves open. The map is given as the list of its entries in the order of the visit;
  the second component of an entry is the \<^verbatim>\<open>Val\<close> slice of the \<^verbatim>\<open>RepeatedValue\<close>. The
  first conversion that fails returns its error.
\<close>

fun add_converted ::
  "('v list \<Rightarrow> int \<Rightarrow> error + arrow_array) \<Rightarrow> int \<Rightarrow> (string \<times> 'v list) list \<Rightarrow>
   Field list \<times> arrow_array list \<Rightarrow> error + (Field list \<times> arrow_array list)" where
  "add_converted conv numRows [] (inputFields, inputColumns) = Inr (inputFields, inputColumns)"
| "add_converted conv numRows ((name, vals) # rest) (inputFields, inputColumns) =
     (case conv vals numRows of
        Inl err \<Rightarrow> Inl err
      | Inr arr \<Rightarrow>
          add_converted conv numRows rest
            (inputFields @ [\<lparr>field_Name = name, field_Type = array_DataType arr\<rparr>],
             inputColumns @ [arr]))"

text \<open>Lines 40 to 65: the record sent to the transformation service, or the error.\<close>

definition buildInputRecord ::
  "('v, 'r) world \<Rightarrow> (string \<times> 'v list) list \<Rightarrow> (string \<times> 'v list) list \<Rightarrow>
   FeatureVector list \<Rightarrow> int \<Rightarrow> error + arrow_record" where
  "buildInputRecord wld requestData entityRows features numRows =
     (case add_converted (ProtoValuesToArrowArray wld) numRows requestData
             (add_features features ([], [])) of
        Inl err \<Rightarrow> Inl err
      | Inr acc \<Rightarrow>
          (case add_converted (ProtoValuesToArrowArray wld) numRows entityRows acc of
             Inl err \<Rightarrow> Inl err
           | Inr (inputFields, inputColumns) \<Rightarrow> Inr (NewRecord inputFields inputColumns numRows)))"

text \<open>
  What the call does to the transformation service, in order: \<^verbatim>\<open>grpc.Dial\<close>, the call of
  \<^verbatim>\<open>TransformFeatures\<close>, and \<^verbatim>\<open>conn.Close()\<close>, which is deferred once the dial has
  succeeded and so runs when the function leaves, by a return or by a panic.
\<close>

datatype event = Dialed string | Called TransformFeaturesRequest | Closed

definition GetTransformation ::
  "grpcTransformationService \<Rightarrow> ('v, 'r) world \<Rightarrow> OnDemandFeatureView \<Rightarrow>
   (string \<times> 'v list) list \<Rightarrow> (string \<times> 'v list) list \<Rightarrow> FeatureVector list \<Rightarrow> int \<Rightarrow> bool \<Rightarrow>
   (FeatureVector list option \<times> error option) outcome \<times> event list" where
  "GetTransformation s wld featureView requestData entityRows features numRows fullFeatureNames =
     (case buildInputRecord wld requestData entityRows features numRows of
        Inl err \<Rightarrow> (Return (None, Some err), [])
      | Inr inputRecord \<Rightarrow>
          (case NewFileWriter wld \<lparr>buf = [], offset = 0\<rparr> of
             (w1, Some err) \<Rightarrow> (Return (None, Some err), [])
           | (w1, None) \<Rightarrow>
               (case FileWriter_Write wld inputRecord w1 of
                  (recordValueWriter, Some err) \<Rightarrow> (Return (None, Some err), [])
                | (recordValueWriter, None) \<Rightarrow>
                    (let req = \<lparr>OnDemandFeatureViewName = base_Name (Base featureView),
                                Project = project s,
                                TransformationInput = buf recordValueWriter\<rparr>
                     in case Dial wld (endpoint s) of
                          Some err \<Rightarrow> (Return (None, Some err), [Dialed (endpoint s)])
                        | None \<Rightarrow>
                            (case TransformFeatures wld req of
                               Inl err \<Rightarrow>
                                 (Return (None, Some err), [Dialed (endpoint s), Called req, Closed])
                             | Inr arrowBytes \<Rightarrow>
                                 (ExtractTransformationResponse wld featureView arrowBytes numRows
                                    fullFeatureNames,
                                  [Dialed (endpoint s), Called req, Closed]))))))"

text \<open>How often the service was dialed and called, and whether the connection was released.\<close>

definition dials :: "event list \<Rightarrow> nat" where
  "dials tr = length (filter (\<lambda>e. case e of Dialed a \<Rightarrow> True | _ \<Rightarrow> False) tr)"

definition calls :: "event list \<Rightarrow> nat" where
  "calls tr = length (filter (\<lambda>e. case e of Called r \<Rightarrow> True | _ \<Rightarrow> False) tr)"

definition released :: "event list \<Rightarrow> bool" where
  "released tr \<longleftrightarrow> tr \<noteq> [] \<and> last tr = Closed"

section \<open>Request values\<close>


type_synonym decimal = "int \<times> nat"

record repeatedValue =
  stringVal :: "string list option"
  int64Val :: "int64 list option"
  doubleVal :: "decimal list option"
  boolVal :: "bool list option"
  stringListVal :: "string list list option"
  int64ListVal :: "int64 list list option"
  doubleListVal :: "decimal list list option"
  boolListVal :: "bool list list option"
  int32Val :: "32 word list option"

definition no_representation :: repeatedValue where
  "no_representation =
     \<lparr>stringVal = None, int64Val = None, doubleVal = None, boolVal = None,
      stringListVal = None, int64ListVal = None, doubleListVal = None, boolListVal = None,
      int32Val = None\<rparr>"

















text \<open>The declared scalar types of an entity or a request source.\<close>

datatype ValueType = ValueType_STRING | ValueType_INT32 | ValueType_INT64 | ValueType_DOUBLE | ValueType_BOOL

text \<open>The column is populated in the representation of the declared type.\<close>

fun matches :: "repeatedValue \<Rightarrow> ValueType \<Rightarrow> bool" where
  "matches u ValueType_STRING = (stringVal u \<noteq> None)"
| "matches u ValueType_INT32 = (int32Val u \<noteq> None)"
| "matches u ValueType_INT64 = (int64Val u \<noteq> None)"
| "matches u ValueType_DOUBLE = (doubleVal u \<noteq> None)"
| "matches u ValueType_BOOL = (boolVal u \<noteq> None)"

definition fits_int32 :: "int64 \<Rightarrow> bool" where
  "fits_int32 x \<longleftrightarrow> - (2 ^ 31) \<le> sint x \<and> sint x < 2 ^ 31"

text \<open>
  Modelled from the spec: \<^verbatim>\<open>typecastToEntitySchemaType\<close> is missing from the sources.
  It narrows a column to the declared type: nothing changes
  when the representation matches already; an int64 column becomes an int32 column when
  every element fits, and that is a range error otherwise; no other conversion is named
  by the specification.
\<close>

definition typecastToEntitySchemaType :: "repeatedValue \<Rightarrow> ValueType \<Rightarrow> error + repeatedValue" where
  "typecastToEntitySchemaType val declared =
     (if matches val declared then Inr val
      else
        (case (declared, int64Val val) of
           (ValueType_INT32, Some xs) \<Rightarrow>
             if list_all fits_int32 xs
             then Inr (val\<lparr>int64Val := None, int32Val := Some (map scast xs)\<rparr>)
             else Inl RangeError
         | _ \<Rightarrow> Inl TypeError))"

section \<open>Example inputs\<close>

text \<open>
  A world whose transformation service echoes its input, whose stream reader decodes
  every payload to the record \<open>r\<close>, and whose clock counts its readings.
\<close>

definition example_now :: "nat \<Rightarrow> Timestamp" where
  "example_now k = \<lparr>Seconds = int k, Nanos = 0\<rparr>"

definition example_world :: "arrow_record \<Rightarrow> (int64, unit) world" where
  "example_world r =
     \<lparr>ProtoValuesToArrowArray = (\<lambda>vals numRows. Inr (Int64Array vals)),
      NewFileWriter = (\<lambda>w. (w, None)),
      FileWriter_Write = (\<lambda>inputRecord w. (w, None)),
      Dial = (\<lambda>target. None),
      TransformFeatures = (\<lambda>req. Inr (TransformationInput req)),
      NewFileReader = (\<lambda>arrowBytes. Inr ()),
      FileReader_Record = (\<lambda>reader i. Inr r),
      Now = example_now\<rparr>"

definition ns_record :: arrow_record where
  "ns_record =
     NewRecord [\<lparr>field_Name = ''ns__feat1'', field_Type = Int64Type\<rparr>,
                \<lparr>field_Name = ''ns__feat2'', field_Type = Int64Type\<rparr>]
               [Int64Array [1, 2], Int64Array [3, 4]] 2"

definition bare_record :: arrow_record where
  "bare_record =
     NewRecord [\<lparr>field_Name = ''feat1'', field_Type = Int64Type\<rparr>] [Int64Array [1, 2]] 2"

definition view_feat1 :: OnDemandFeatureView where
  "view_feat1 =
     \<lparr>Base = \<lparr>base_Name = ''odfv'',
              Projection = Some \<lparr>projection_Features = [\<lparr>feature_Name = ''feat1''\<rparr>]\<rparr>\<rparr>\<rparr>"

definition view_no_projection :: OnDemandFeatureView where
  "view_no_projection = \<lparr>Base = \<lparr>base_Name = ''odfv'', Projection = None\<rparr>\<rparr>"

definition example_service :: grpcTransformationService where
  "example_service = \<lparr>endpoint = ''localhost:6569'', project = ''feature_repo''\<rparr>"

definition example_features :: "FeatureVector list" where
  "example_features =
     [\<lparr>fv_Name = ''f'', Values = Int64Array [0, 1], Statuses = [PRESENT, PRESENT],
       Timestamps = [Some (example_now 0), Some (example_now 0)]\<rparr>]"

definition example_input :: arrow_record where
  "example_input =
     NewRecord [\<lparr>field_Name = ''f'', field_Type = Int64Type\<rparr>,
                \<lparr>field_Name = ''r'', field_Type = Int64Type\<rparr>,
                \<lparr>field_Name = ''e'', field_Type = Int64Type\<rparr>]
               [Int64Array [0, 1], Int64Array [5, 6], Int64Array [7, 8]] 2"

text \<open>Worlds in which one step of the round trip fails.\<close>

definition failing_new_writer_world :: "(int64, unit) world" where
  "failing_new_writer_world =
     (example_world ns_record)\<lparr>NewFileWriter := (\<lambda>w. (w, Some (External ''new writer'')))\<rparr>"

definition failing_write_world :: "(int64, unit) world" where
  "failing_write_world =
     (example_world ns_record)\<lparr>FileWriter_Write := (\<lambda>inputRecord w. (w, Some (External ''write'')))\<rparr>"

definition failing_dial_world :: "(int64, unit) world" where
  "failing_dial_world = (example_world ns_record)\<lparr>Dial := (\<lambda>target. Some (External ''dial''))\<rparr>"

definition failing_call_world :: "(int64, unit) world" where
  "failing_call_world =
     (example_world ns_record)\<lparr>TransformFeatures := (\<lambda>req. Inl (External ''call''))\<rparr>"

text \<open>A world whose conversion rejects a value list that has not \<open>numRows\<close> elements.\<close>

definition checking_world :: "(int64, unit) world" where
  "checking_world =
     (example_world ns_record)\<lparr>ProtoValuesToArrowArray :=
        (\<lambda>vals numRows. if int (length vals) = numRows then Inr (Int64Array vals)
                          else Inl (External ''conversion''))\<rparr>"

section \<open>Properties of ByteSliceWriter\<close>

lemma sint_word_of_nat64:
  assumes "int n < 2 ^ 63"
  shows "sint (word_of_nat n :: int64) = int n"
proof -
  have "sint (word_of_nat n :: int64) = signed_take_bit 63 (int n)"
    using sint_sbintrunc' [of "int n", where ?'a = 64] by simp
  also have "\<dots> = int n"
    using assms by (simp add: signed_take_bit_int_eq_self)
  finally show ?thesis .
qed

lemma sint_add_of_nat:
  fixes a :: int64
  assumes "0 \<le> sint a" "sint a + int n < 2 ^ 63"
  shows "sint (a + word_of_nat n) = sint a + int n"
proof -
  have n: "int n < 2 ^ 63" using assms by linarith
  have "sint (a + word_of_nat n) = signed_take_bit 63 (sint a + int n)"
    by (simp add: sint_word_add sint_word_of_nat64 [OF n])
  also have "\<dots> = sint a + int n"
    using assms by (simp add: signed_take_bit_int_eq_self)
  finally show ?thesis .
qed

lemma copy_at_grow:
  assumes "off \<le> length b" "length b - off < length p"
  shows "copy_at (b @ replicate (length p + off - length b) z) off p = take off b @ p"
  using assms by (simp add: copy_at_def Let_def min_def)

lemma copy_at_fit:
  assumes "off \<le> length b" "\<not> length b - off < length p"
  shows "copy_at b off p = take off b @ p @ drop (off + length p) b"
  using assms by (simp add: copy_at_def Let_def min_def)

lemma Write_result:
  assumes "cursor_ok w"
  shows "Write w p =
           Return (\<lparr>buf = take (nat (sint (offset w))) (buf w) @ p @
                          drop (nat (sint (offset w)) + length p) (buf w),
                    offset = offset w + word_of_nat (length p)\<rparr>, length p, None)"
proof -
  let ?off = "nat (sint (offset w))"
  have c: "\<not> (sint (offset w) < 0 \<or> int (length (buf w)) < sint (offset w))"
    using assms by (simp add: cursor_ok_def)
  have le: "?off \<le> length (buf w)"
    using assms unfolding cursor_ok_def by linarith
  show ?thesis
  proof (cases "length (buf w) - ?off < length p")
    case True
    then have "drop (?off + length p) (buf w) = []" by simp
    with True c le show ?thesis
      by (simp add: Write_def Let_def copy_at_grow)
  next
    case False
    with c le show ?thesis
      by (simp add: Write_def Let_def copy_at_fit)
  qed
qed

text \<open>
  C1 (as the code has it). On a buffer of three bytes, \<^verbatim>\<open>Seek(0, io.SeekStart)\<close> followed by
  \<^verbatim>\<open>Seek(0, io.SeekEnd)\<close> returns 0 and leaves the cursor at 0, where the length 3 is
  expected: the \<^verbatim>\<open>io.SeekEnd\<close> branch checks \<open>len + offset\<close> and then stores \<open>offset\<close>.
  From cursor 0, \<^verbatim>\<open>Seek(5, io.SeekCurrent)\<close> moves the cursor to 5, beyond the length, and
  from the end \<^verbatim>\<open>Seek(-1, io.SeekEnd)\<close> moves it to \<open>-1\<close>, and both report success.
\<close>

theorem Seek_end_stores_delta:
  "Seek \<lparr>buf = [1, 2, 3], offset = 3\<rparr> 0 SeekStart = (\<lparr>buf = [1, 2, 3], offset = 0\<rparr>, 0, None) \<and>
   Seek \<lparr>buf = [1, 2, 3], offset = 0\<rparr> 0 SeekEnd = (\<lparr>buf = [1, 2, 3], offset = 0\<rparr>, 0, None) \<and>
   Seek \<lparr>buf = [1, 2, 3], offset = 0\<rparr> 5 SeekCurrent = (\<lparr>buf = [1, 2, 3], offset = 5\<rparr>, 5, None) \<and>
   Seek \<lparr>buf = [1, 2, 3], offset = 3\<rparr> (- 1) SeekEnd = (\<lparr>buf = [1, 2, 3], offset = - 1\<rparr>, - 1, None)"
  by (simp add: Seek_def SeekStart_def SeekCurrent_def SeekEnd_def len64_def word_sless_alt)

text \<open>
  C7. When the cursor lies within the buffer, \<open>Write\<close> returns \<open>len p\<close> and a nil error.
  The new buffer is the old one up to the cursor, then \<open>p\<close>, then what the old buffer
  had beyond the written range; its length is the larger of the old length and the end
  of the written range; the cursor has advanced by \<open>len p\<close>. The end of the written
  range is below \<open>2 ^ 63\<close>, as the length of every Go slice is.
\<close>

theorem Write_at_cursor:
  assumes "cursor_ok w" and "sint (offset w) + int (length p) < 2 ^ 63"
  shows "Write w p =
           Return (\<lparr>buf = take (nat (sint (offset w))) (buf w) @ p @
                          drop (nat (sint (offset w)) + length p) (buf w),
                    offset = offset w + word_of_nat (length p)\<rparr>, length p, None) \<and>
         sint (offset w + word_of_nat (length p)) = sint (offset w) + int (length p) \<and>
         length (take (nat (sint (offset w))) (buf w) @ p @
                 drop (nat (sint (offset w)) + length p) (buf w))
           = max (length (buf w)) (nat (sint (offset w)) + length p)"
proof (intro conjI)
  show "Write w p =
           Return (\<lparr>buf = take (nat (sint (offset w))) (buf w) @ p @
                          drop (nat (sint (offset w)) + length p) (buf w),
                    offset = offset w + word_of_nat (length p)\<rparr>, length p, None)"
    using assms(1) by (rule Write_result)
  show "sint (offset w + word_of_nat (length p)) = sint (offset w) + int (length p)"
    using assms by (simp add: cursor_ok_def sint_add_of_nat)
  have "nat (sint (offset w)) \<le> length (buf w)"
    using assms(1) unfolding cursor_ok_def by linarith
  then show "length (take (nat (sint (offset w))) (buf w) @ p @
                 drop (nat (sint (offset w)) + length p) (buf w))
           = max (length (buf w)) (nat (sint (offset w)) + length p)"
    by (simp add: min_def max_def)
qed

theorem Write_at_cursor_witness:
  "cursor_ok \<lparr>buf = [1, 2, 3], offset = 2\<rparr> \<and>
   Write \<lparr>buf = [1, 2, 3], offset = 2\<rparr> [8, 9] = Return (\<lparr>buf = [1, 2, 8, 9], offset = 4\<rparr>, 2, None) \<and>
   cursor_ok \<lparr>buf = [1, 2, 3], offset = 0\<rparr> \<and>
   Write \<lparr>buf = [1, 2, 3], offset = 0\<rparr> [8, 9] = Return (\<lparr>buf = [8, 9, 3], offset = 2\<rparr>, 2, None)"
proof -
  have a: "cursor_ok \<lparr>buf = [1, 2, 3], offset = 2\<rparr>" by (simp add: cursor_ok_def)
  have b: "cursor_ok \<lparr>buf = [1, 2, 3], offset = 0\<rparr>" by (simp add: cursor_ok_def)
  show ?thesis
    using a b Write_at_cursor [of "\<lparr>buf = [1, 2, 3], offset = 2\<rparr>" "[8, 9]"]
      Write_at_cursor [of "\<lparr>buf = [1, 2, 3], offset = 0\<rparr>" "[8, 9]"]
    by simp
qed

text \<open>
  C10. With the cursor at 0, \<^verbatim>\<open>Seek(delta, io.SeekCurrent)\<close> succeeds for every \<open>delta\<close> and
  sets the cursor to \<open>delta\<close>; on an empty buffer \<^verbatim>\<open>Seek(delta, io.SeekEnd)\<close> does the same.
  When \<open>delta\<close> is negative or beyond the length, the cursor is outside the buffer after
  the successful call.
\<close>

theorem Seek_from_zero_unchecked:
  "(offset w = 0 \<longrightarrow> Seek w delta SeekCurrent = (w\<lparr>offset := delta\<rparr>, delta, None)) \<and>
   (buf w = [] \<longrightarrow> Seek w delta SeekEnd = (w\<lparr>offset := delta\<rparr>, delta, None)) \<and>
   (offset w = 0 \<and> (sint delta < 0 \<or> int (length (buf w)) < sint delta) \<longrightarrow>
      \<not> cursor_ok (fst (Seek w delta SeekCurrent)))"
  by (auto simp add: Seek_def SeekStart_def SeekCurrent_def SeekEnd_def len64_def cursor_ok_def)

theorem Seek_from_zero_unchecked_witness:
  "cursor_ok \<lparr>buf = [1, 2, 3], offset = 0\<rparr> \<and>
   Seek \<lparr>buf = [1, 2, 3], offset = 0\<rparr> (- 1) SeekCurrent = (\<lparr>buf = [1, 2, 3], offset = - 1\<rparr>, - 1, None) \<and>
   \<not> cursor_ok (fst (Seek \<lparr>buf = [1, 2, 3], offset = 0\<rparr> (- 1) SeekCurrent)) \<and>
   Seek \<lparr>buf = [], offset = 0\<rparr> 7 SeekEnd = (\<lparr>buf = [], offset = 7\<rparr>, 7, None)"
proof -
  have a: "cursor_ok \<lparr>buf = [1, 2, 3], offset = 0\<rparr>" by (simp add: cursor_ok_def)
  show ?thesis
    using a Seek_from_zero_unchecked [of "\<lparr>buf = [1, 2, 3], offset = 0\<rparr>" "- 1"]
      Seek_from_zero_unchecked [of "\<lparr>buf = [], offset = 0\<rparr>" 7]
    by (simp add: cursor_ok_def)
qed

section \<open>Properties of ExtractTransformationResponse\<close>

lemma stamp_fold:
  "m \<le> n \<Longrightarrow>
   fold (\<lambda>idx (statuses, timestamps, k).
           (statuses[idx := PRESENT], timestamps[idx := Some (now k)], Suc k))
     [0..<m] (replicate n INVALID, replicate n None, tick)
   = (replicate m PRESENT @ replicate (n - m) INVALID,
      map (\<lambda>i. Some (now (tick + i))) [0..<m] @ replicate (n - m) None, tick + m)"
proof (induction m)
  case 0
  then show ?case by simp
next
  case (Suc m)
  then have m: "m < n" by simp
  then have r: "replicate (n - m) x = x # replicate (n - Suc m) x" for x :: 'b
    by (metis Suc_diff_Suc replicate_Suc)
  have u1: "(replicate m PRESENT @ replicate (n - m) INVALID)[m := PRESENT]
            = replicate (Suc m) PRESENT @ replicate (n - Suc m) INVALID"
    by (simp add: r [of INVALID] list_update_append replicate_append_same)
  have u2: "(map (\<lambda>i. Some (now (tick + i))) [0..<m] @ replicate (n - m) None)[m := Some (now (tick + m))]
            = map (\<lambda>i. Some (now (tick + i))) [0..<Suc m] @ replicate (n - Suc m) None"
    by (simp add: r [of None] list_update_append)
  from Suc m show ?case
    by (simp add: u1 u2 del: replicate_Suc)
qed

lemma stamp_rows_eq:
  "stamp_rows now n tick = (replicate n PRESENT, map (\<lambda>i. Some (now (tick + i))) [0..<n], tick + n)"
  using stamp_fold [of n n now tick] by (simp add: stamp_rows_def)

lemma dropFeature_fold:
  "fold (\<lambda>feature dropFeature. if name = feature_Name feature then False else dropFeature) fs d
   = (d \<and> name \<notin> feature_Name ` set fs)"
  by (induction fs arbitrary: d) auto

lemma dropFeature_after_iff:
  "dropFeature_after fs name \<longleftrightarrow> name \<notin> feature_Name ` set fs"
  by (simp add: dropFeature_after_def dropFeature_fold)

lemma fields_loop_stamped:
  "fields_loop now fv r numRows full idx fs (res, tick) = Return (res', tick') \<Longrightarrow>
   \<exists>vecs. res' = res @ vecs \<and> (\<forall>v\<in>set vecs. stamped now r numRows v)"
proof (induction fs arbitrary: idx res tick)
  case Nil
  then show ?case by simp
next
  case (Cons f fs)
  show ?case
  proof (cases "dropFeature_of fv full f")
    case (Panic p)
    with Cons.prems show ?thesis by simp
  next
    case (Return d)
    show ?thesis
    proof (cases d)
      case True
      with Return Cons.prems
      have "fields_loop now fv r numRows full (Suc idx) fs (res, tick) = Return (res', tick')"
        by simp
      from Cons.IH [OF this] show ?thesis .
    next
      case False
      with Return Cons.prems have n: "0 \<le> numRows"
        by (simp split: if_splits)
      from False Return Cons.prems n obtain col where
        col: "Column r idx = Return col"
        by (cases "Column r idx") (simp_all add: stamp_rows_eq)
      then have colin: "col \<in> set (record_Columns r)"
        by (auto simp: Column_def split: if_splits)
      let ?v = "\<lparr>fv_Name = field_Name f, Values = col,
                 Statuses = replicate (nat numRows) PRESENT,
                 Timestamps = map (\<lambda>i. Some (now (tick + i))) [0..<nat numRows]\<rparr>"
      from False Return Cons.prems n col
      have "fields_loop now fv r numRows full (Suc idx) fs (res @ [?v], tick + nat numRows)
            = Return (res', tick')"
        by (simp add: stamp_rows_eq)
      from Cons.IH [OF this] obtain vecs where
        v: "res' = (res @ [?v]) @ vecs" "\<forall>v\<in>set vecs. stamped now r numRows v" by blast
      have "stamped now r numRows ?v"
        using n colin by (auto simp: stamped_def)
      with v have "res' = res @ (?v # vecs) \<and> (\<forall>v\<in>set (?v # vecs). stamped now r numRows v)"
        by simp
      then show ?thesis by blast
    qed
  qed
qed

lemma fields_loop_kept:
  assumes "\<forall>f\<in>set fs. dropFeature_of fv full f = Return (dropped f)"
    and "0 \<le> numRows"
    and "idx + length fs \<le> length (record_Columns r)"
  shows "\<exists>vecs tick'.
           fields_loop now fv r numRows full idx fs (res, tick) = Return (res @ vecs, tick') \<and>
           map (\<lambda>v. (fv_Name v, Values v)) vecs =
             map (\<lambda>(i, f). (field_Name f, record_Columns r ! i))
               (filter (\<lambda>(i, f). \<not> dropped f) (enumerate idx fs))"
  using assms
proof (induction fs arbitrary: idx res tick)
  case Nil
  then show ?case by simp
next
  case (Cons f fs)
  from Cons.prems have d: "dropFeature_of fv full f = Return (dropped f)" by simp
  from Cons.prems have rest: "\<forall>f\<in>set fs. dropFeature_of fv full f = Return (dropped f)"
    and len: "Suc idx + length fs \<le> length (record_Columns r)" by simp_all
  show ?case
  proof (cases "dropped f")
    case True
    from Cons.IH [OF rest Cons.prems(2) len, of res tick] True d show ?thesis
      by simp
  next
    case False
    have col: "Column r idx = Return (record_Columns r ! idx)"
      using Cons.prems(3) by (simp add: Column_def)
    let ?v = "\<lparr>fv_Name = field_Name f, Values = record_Columns r ! idx,
               Statuses = replicate (nat numRows) PRESENT,
               Timestamps = map (\<lambda>i. Some (now (tick + i))) [0..<nat numRows]\<rparr>"
    from Cons.IH [OF rest Cons.prems(2) len, of "res @ [?v]" "tick + nat numRows"]
    obtain vecs tick' where
      l: "fields_loop now fv r numRows full (Suc idx) fs (res @ [?v], tick + nat numRows)
          = Return ((res @ [?v]) @ vecs, tick')"
      and m: "map (\<lambda>v. (fv_Name v, Values v)) vecs =
             map (\<lambda>(i, f). (field_Name f, record_Columns r ! i))
               (filter (\<lambda>(i, f). \<not> dropped f) (enumerate (Suc idx) fs))"
      by blast
    have "fields_loop now fv r numRows full idx (f # fs) (res, tick) = Return (res @ (?v # vecs), tick')"
      using d False Cons.prems(2) col l by (simp add: stamp_rows_eq)
    moreover have "map (\<lambda>v. (fv_Name v, Values v)) (?v # vecs) =
             map (\<lambda>(i, f). (field_Name f, record_Columns r ! i))
               (filter (\<lambda>(i, f). \<not> dropped f) (enumerate idx (f # fs)))"
      using False m by simp
    ultimately show ?thesis by blast
  qed
qed

lemma enumerate_zip_columns:
  "length cols = length fs \<Longrightarrow>
   map (\<lambda>(i, f). (g f, cols ! i)) (enumerate 0 fs) = zip (map g fs) cols"
  by (rule nth_equalityI) (simp_all add: nth_enumerate_eq)

text \<open>
  C2 (as the code has it). With a projection, \<open>fullFeatureNames\<close> set and a decoded record
  whose field is named \<^verbatim>\<open>feat1\<close>, \<^verbatim>\<open>strings.Split\<close> yields one segment and the index
  expression \<^verbatim>\<open>[1]\<close> panics: the function does not return an error to its caller.
\<close>

theorem Extract_panics_without_separator:
  "Split ''feat1'' ''__'' = [''feat1''] \<and>
   ExtractTransformationResponse (example_world bare_record) view_feat1 [] 2 True
     = Panic (IndexOutOfRange 1 1)"
  by (simp add: ExtractTransformationResponse_def example_world_def bare_record_def view_feat1_def
      NewRecord_def dropFeature_of_def featureName_of_def Split_def)

text \<open>
  C3. Let the payload decode to a record with one column per field, and let \<open>numRows\<close> not
  be negative. With a projection and \<open>fullFeatureNames\<close> set, when every field name has a
  second \<^verbatim>\<open>__\<close> segment, the result holds, in schema order, exactly the columns whose
  second segment is the name of a feature of the projection, each under its field name
  and with its column as values. Without a projection the result holds every column,
  whatever \<open>fullFeatureNames\<close> is. (A field name with no second segment is the subject of
  C2.)
\<close>

theorem Extract_keeps_projected_columns:
  assumes "NewFileReader wld arrowBytes = Inr reader"
    and "FileReader_Record wld reader numRows = Inr outRecord"
    and "length (record_Columns outRecord) = length (schema_Fields outRecord)"
    and "0 \<le> numRows"
  shows "(Projection (Base featureView) = Some projection \<and>
          (\<forall>f\<in>set (schema_Fields outRecord). 1 < length (Split (field_Name f) ''__'')) \<longrightarrow>
          (\<exists>vecs. ExtractTransformationResponse wld featureView arrowBytes numRows True
                     = Return (Some vecs, None) \<and>
                   map (\<lambda>v. (fv_Name v, Values v)) vecs =
                     map (\<lambda>(i, f). (field_Name f, record_Columns outRecord ! i))
                       (filter (\<lambda>(i, f). Split (field_Name f) ''__'' ! 1
                                           \<in> feature_Name ` set (projection_Features projection))
                          (enumerate 0 (schema_Fields outRecord))))) \<and>
         (Projection (Base featureView) = None \<longrightarrow>
          (\<exists>vecs. ExtractTransformationResponse wld featureView arrowBytes numRows fullFeatureNames
                     = Return (Some vecs, None) \<and>
                   map (\<lambda>v. (fv_Name v, Values v)) vecs =
                     zip (map field_Name (schema_Fields outRecord)) (record_Columns outRecord)))"
proof (intro conjI impI)
  assume a: "Projection (Base featureView) = Some projection \<and>
          (\<forall>f\<in>set (schema_Fields outRecord). 1 < length (Split (field_Name f) ''__''))"
  let ?dropped = "\<lambda>f. Split (field_Name f) ''__'' ! 1 \<notin> feature_Name ` set (projection_Features projection)"
  have d: "\<forall>f\<in>set (schema_Fields outRecord). dropFeature_of featureView True f = Return (?dropped f)"
    using a by (simp add: dropFeature_of_def featureName_of_def dropFeature_after_iff)
  have len: "0 + length (schema_Fields outRecord) \<le> length (record_Columns outRecord)"
    using assms(3) by simp
  from fields_loop_kept [OF d assms(4) len, of "Now wld" "[]" 0]
  obtain vecs tick' where
    l: "fields_loop (Now wld) featureView outRecord numRows True 0 (schema_Fields outRecord) ([], 0)
        = Return (vecs, tick')"
    and m: "map (\<lambda>v. (fv_Name v, Values v)) vecs =
             map (\<lambda>(i, f). (field_Name f, record_Columns outRecord ! i))
               (filter (\<lambda>(i, f). \<not> ?dropped f) (enumerate 0 (schema_Fields outRecord)))"
    by auto
  have "ExtractTransformationResponse wld featureView arrowBytes numRows True = Return (Some vecs, None)"
    using assms(1,2) l by (simp add: ExtractTransformationResponse_def)
  with m show "\<exists>vecs. ExtractTransformationResponse wld featureView arrowBytes numRows True
                     = Return (Some vecs, None) \<and>
                   map (\<lambda>v. (fv_Name v, Values v)) vecs =
                     map (\<lambda>(i, f). (field_Name f, record_Columns outRecord ! i))
                       (filter (\<lambda>(i, f). Split (field_Name f) ''__'' ! 1
                                           \<in> feature_Name ` set (projection_Features projection))
                          (enumerate 0 (schema_Fields outRecord)))"
    by auto
next
  assume a: "Projection (Base featureView) = None"
  have d: "\<forall>f\<in>set (schema_Fields outRecord).
             dropFeature_of featureView fullFeatureNames f = Return ((\<lambda>f. False) f)"
    using a by (simp add: dropFeature_of_def)
  have len: "0 + length (schema_Fields outRecord) \<le> length (record_Columns outRecord)"
    using assms(3) by simp
  from fields_loop_kept [OF d assms(4) len, of "Now wld" "[]" 0]
  obtain vecs tick' where
    l: "fields_loop (Now wld) featureView outRecord numRows fullFeatureNames 0
          (schema_Fields outRecord) ([], 0) = Return (vecs, tick')"
    and m: "map (\<lambda>v. (fv_Name v, Values v)) vecs =
             map (\<lambda>(i, f). (field_Name f, record_Columns outRecord ! i))
               (enumerate 0 (schema_Fields outRecord))"
    by auto
  have "ExtractTransformationResponse wld featureView arrowBytes numRows fullFeatureNames
        = Return (Some vecs, None)"
    using assms(1,2) l by (simp add: ExtractTransformationResponse_def)
  with m enumerate_zip_columns [OF assms(3), of field_Name]
  show "\<exists>vecs. ExtractTransformationResponse wld featureView arrowBytes numRows fullFeatureNames
                     = Return (Some vecs, None) \<and>
                   map (\<lambda>v. (fv_Name v, Values v)) vecs =
                     zip (map field_Name (schema_Fields outRecord)) (record_Columns outRecord)"
    by auto
qed

theorem Extract_keeps_projected_columns_witness:
  "NewFileReader (example_world ns_record) [] = Inr () \<and>
   FileReader_Record (example_world ns_record) () 2 = Inr ns_record \<and>
   length (record_Columns ns_record) = length (schema_Fields ns_record) \<and>
   Projection (Base view_feat1) = Some \<lparr>projection_Features = [\<lparr>feature_Name = ''feat1''\<rparr>]\<rparr> \<and>
   map (\<lambda>f. Split (field_Name f) ''__'') (schema_Fields ns_record)
     = [[''ns'', ''feat1''], [''ns'', ''feat2'']] \<and>
   (\<exists>vecs. ExtractTransformationResponse (example_world ns_record) view_feat1 [] 2 True
              = Return (Some vecs, None) \<and>
            map (\<lambda>v. (fv_Name v, Values v)) vecs = [(''ns__feat1'', Int64Array [1, 2])]) \<and>
   Projection (Base view_no_projection) = None \<and>
   (\<exists>vecs. ExtractTransformationResponse (example_world ns_record) view_no_projection [] 2 True
              = Return (Some vecs, None) \<and>
            map (\<lambda>v. (fv_Name v, Values v)) vecs =
              [(''ns__feat1'', Int64Array [1, 2]), (''ns__feat2'', Int64Array [3, 4])])"
proof -
  have h1: "NewFileReader (example_world ns_record) [] = Inr ()"
    by (simp add: example_world_def)
  have h2: "FileReader_Record (example_world ns_record) () 2 = Inr ns_record"
    by (simp add: example_world_def)
  have h3: "length (record_Columns ns_record) = length (schema_Fields ns_record)"
    by (simp add: ns_record_def NewRecord_def)
  have h4: "(0::int) \<le> 2" by simp
  have h5: "Projection (Base view_feat1) = Some \<lparr>projection_Features = [\<lparr>feature_Name = ''feat1''\<rparr>]\<rparr>"
    by (simp add: view_feat1_def)
  have h6: "\<forall>f\<in>set (schema_Fields ns_record). 1 < length (Split (field_Name f) ''__'')"
    by (simp add: ns_record_def NewRecord_def Split_def)
  have h7: "Projection (Base view_no_projection) = None"
    by (simp add: view_no_projection_def)
  have e: "enumerate 0 (schema_Fields ns_record) =
            [(0, \<lparr>field_Name = ''ns__feat1'', field_Type = Int64Type\<rparr>),
             (1, \<lparr>field_Name = ''ns__feat2'', field_Type = Int64Type\<rparr>)]"
    by (simp add: ns_record_def NewRecord_def)
  have c: "record_Columns ns_record = [Int64Array [1, 2], Int64Array [3, 4]]"
    by (simp add: ns_record_def NewRecord_def)
  have f: "map field_Name (schema_Fields ns_record) = [''ns__feat1'', ''ns__feat2'']"
    by (simp add: ns_record_def NewRecord_def)
  from Extract_keeps_projected_columns [OF h1 h2 h3 h4, of view_feat1 "\<lparr>projection_Features = [\<lparr>feature_Name = ''feat1''\<rparr>]\<rparr>"] h5 h6
  have a: "\<exists>vecs. ExtractTransformationResponse (example_world ns_record) view_feat1 [] 2 True
              = Return (Some vecs, None) \<and>
            map (\<lambda>v. (fv_Name v, Values v)) vecs = [(''ns__feat1'', Int64Array [1, 2])]"
    by (simp add: e c Split_def)
  from Extract_keeps_projected_columns [OF h1 h2 h3 h4, of view_no_projection _ True] h7
  have b: "\<exists>vecs. ExtractTransformationResponse (example_world ns_record) view_no_projection [] 2 True
              = Return (Some vecs, None) \<and>
            map (\<lambda>v. (fv_Name v, Values v)) vecs =
              [(''ns__feat1'', Int64Array [1, 2]), (''ns__feat2'', Int64Array [3, 4])]"
    by (simp add: c f)
  have h8: "map (\<lambda>f. Split (field_Name f) ''__'') (schema_Fields ns_record)
              = [[''ns'', ''feat1''], [''ns'', ''feat2'']]"
    by (simp add: ns_record_def NewRecord_def Split_def)
  from h1 h2 h3 h5 h7 h8 a b show ?thesis by blast
qed

text \<open>
  C5 (as stated). The values of a vector are the decoded column as it is, and the code
  does not compare its length with \<open>numRows\<close>: a decoded record of two rows and
  \<open>numRows = 3\<close> give vectors of two values with three statuses and three timestamps.
\<close>

theorem Extract_values_length_counterexample:
  "ExtractTransformationResponse (example_world ns_record) view_no_projection [] 3 False =
     Return (Some [\<lparr>fv_Name = ''ns__feat1'', Values = Int64Array [1, 2],
                     Statuses = [PRESENT, PRESENT, PRESENT],
                     Timestamps = [Some (example_now 0), Some (example_now 1), Some (example_now 2)]\<rparr>,
                   \<lparr>fv_Name = ''ns__feat2'', Values = Int64Array [3, 4],
                     Statuses = [PRESENT, PRESENT, PRESENT],
                     Timestamps = [Some (example_now 3), Some (example_now 4), Some (example_now 5)]\<rparr>],
             None) \<and>
   \<not> rows_consistent 3 \<lparr>fv_Name = ''ns__feat1'', Values = Int64Array [1, 2],
                     Statuses = [PRESENT, PRESENT, PRESENT],
                     Timestamps = [Some (example_now 0), Some (example_now 1), Some (example_now 2)]\<rparr>"
  by (simp add: ExtractTransformationResponse_def example_world_def ns_record_def NewRecord_def
        view_no_projection_def dropFeature_of_def stamp_rows_def Column_def rows_consistent_def
        eval_nat_numeral)

text \<open>
  C5 (amended). After a successful reconciliation every vector has statuses all
  \<open>PRESENT\<close> and timestamps all non-nil, \<open>numRows\<close> of each, and its values are a column of
  the decoded record; so the three lengths agree with \<open>numRows\<close> when the columns of the
  decoded record have \<open>numRows\<close> rows.
\<close>

theorem Extract_stamps_rows:
  assumes "NewFileReader wld arrowBytes = Inr reader"
    and "FileReader_Record wld reader numRows = Inr outRecord"
    and "ExtractTransformationResponse wld featureView arrowBytes numRows fullFeatureNames
         = Return (Some vecs, None)"
    and "v \<in> set vecs"
  shows "list_all (\<lambda>s. s = PRESENT) (Statuses v) \<and>
         list_all (\<lambda>t. t \<noteq> None) (Timestamps v) \<and>
         int (length (Statuses v)) = numRows \<and>
         int (length (Timestamps v)) = numRows \<and>
         Values v \<in> set (record_Columns outRecord) \<and>
         ((\<forall>c\<in>set (record_Columns outRecord). int (array_Len c) = numRows) \<longrightarrow>
            rows_consistent numRows v)"
proof -
  from assms(1-3) obtain tick' where
    "fields_loop (Now wld) featureView outRecord numRows fullFeatureNames 0
       (schema_Fields outRecord) ([], 0) = Return (vecs, tick')"
    by (auto simp: ExtractTransformationResponse_def split: outcome.splits)
  from fields_loop_stamped [OF this] assms(4)
  have "stamped (Now wld) outRecord numRows v" by simp
  then show ?thesis
    by (auto simp: stamped_def list_all_iff rows_consistent_def)
qed

theorem Extract_stamps_rows_witness:
  "NewFileReader (example_world ns_record) [] = Inr () \<and>
   FileReader_Record (example_world ns_record) () 2 = Inr ns_record \<and>
   ExtractTransformationResponse (example_world ns_record) view_feat1 [] 2 True =
     Return (Some [\<lparr>fv_Name = ''ns__feat1'', Values = Int64Array [1, 2],
                     Statuses = [PRESENT, PRESENT],
                     Timestamps = [Some (example_now 0), Some (example_now 1)]\<rparr>], None) \<and>
   list_all (\<lambda>s. s = PRESENT) [PRESENT, PRESENT] \<and>
   list_all (\<lambda>t. t \<noteq> None) [Some (example_now 0), Some (example_now 1)] \<and>
   int (length [PRESENT, PRESENT]) = 2 \<and>
   Int64Array [1, 2] \<in> set (record_Columns ns_record) \<and>
   map array_Len (record_Columns ns_record) = [2, 2] \<and>
   rows_consistent 2 \<lparr>fv_Name = ''ns__feat1'', Values = Int64Array [1, 2],
                     Statuses = [PRESENT, PRESENT],
                     Timestamps = [Some (example_now 0), Some (example_now 1)]\<rparr>"
proof -
  have h1: "NewFileReader (example_world ns_record) [] = Inr ()"
    by (simp add: example_world_def)
  have h2: "FileReader_Record (example_world ns_record) () 2 = Inr ns_record"
    by (simp add: example_world_def)
  have h3: "ExtractTransformationResponse (example_world ns_record) view_feat1 [] 2 True =
     Return (Some [\<lparr>fv_Name = ''ns__feat1'', Values = Int64Array [1, 2],
                     Statuses = [PRESENT, PRESENT],
                     Timestamps = [Some (example_now 0), Some (example_now 1)]\<rparr>], None)"
    by (simp add: ExtractTransformationResponse_def example_world_def ns_record_def NewRecord_def
        view_feat1_def dropFeature_of_def featureName_of_def dropFeature_after_def Split_def
        stamp_rows_def Column_def eval_nat_numeral)
  note r = Extract_stamps_rows [OF h1 h2 h3, of "\<lparr>fv_Name = ''ns__feat1'', Values = Int64Array [1, 2],
                     Statuses = [PRESENT, PRESENT],
                     Timestamps = [Some (example_now 0), Some (example_now 1)]\<rparr>"]
  have h4: "\<forall>c\<in>set (record_Columns ns_record). int (array_Len c) = 2"
    by (simp add: ns_record_def NewRecord_def)
  have h5: "map array_Len (record_Columns ns_record) = [2, 2]"
    by (simp add: ns_record_def NewRecord_def)
  from r h1 h2 h3 h4 h5 show ?thesis by simp
qed

section \<open>Properties of GetTransformation\<close>

lemma add_features_eq:
  "add_features vs (fs, cs) =
     (fs @ map (\<lambda>v. \<lparr>field_Name = fv_Name v, field_Type = array_DataType (Values v)\<rparr>) vs,
      cs @ map Values vs)"
  by (induction vs arbitrary: fs cs) simp_all

lemma add_converted_append:
  "add_converted conv n (xs @ ys) acc =
     (case add_converted conv n xs acc of Inl err \<Rightarrow> Inl err | Inr acc' \<Rightarrow> add_converted conv n ys acc')"
proof (induction xs arbitrary: acc)
  case Nil
  then show ?case by (cases acc) simp
next
  case (Cons x xs)
  then show ?case
    by (cases x; cases acc) (simp split: sum.splits)
qed

lemma add_converted_ok:
  "\<forall>e\<in>set es. conv (snd e) n = Inr (col e) \<Longrightarrow>
   add_converted conv n es (fs, cs) =
     Inr (fs @ map (\<lambda>e. \<lparr>field_Name = fst e, field_Type = array_DataType (col e)\<rparr>) es,
          cs @ map col es)"
proof (induction es arbitrary: fs cs)
  case Nil
  then show ?case by simp
next
  case (Cons e es)
  then show ?case by (cases e) simp
qed

lemma add_converted_fail:
  assumes "\<forall>e\<in>set pre. conv (snd e) n = Inr (col e)" and "conv vals n = Inl err"
  shows "add_converted conv n (pre @ (name, vals) # post) (fs, cs) = Inl err"
  using assms add_converted_ok [where es = pre and conv = conv and n = n and col = col and fs = fs and cs = cs]
  by (simp add: add_converted_append)

lemma buildInputRecord_append:
  "buildInputRecord wld requestData entityRows features numRows =
     (case add_converted (ProtoValuesToArrowArray wld) numRows (requestData @ entityRows)
             (add_features features ([], [])) of
        Inl err \<Rightarrow> Inl err
      | Inr (inputFields, inputColumns) \<Rightarrow> Inr (NewRecord inputFields inputColumns numRows))"
  by (simp add: buildInputRecord_def add_converted_append split: sum.splits)

text \<open>
  C6. When every conversion succeeds, the fields and the columns of the built record are
  those of the feature vectors in the order of the slice, then those of the request
  values in the order the map is visited, then those of the entity values in the order
  that map is visited. When a conversion fails after those before it in that order have
  succeeded, no record is built and \<open>GetTransformation\<close> returns a nil list with the
  error of that conversion, before anything is sent.
\<close>

theorem buildInputRecord_column_order:
  "((\<forall>e\<in>set (requestData @ entityRows). ProtoValuesToArrowArray wld (snd e) numRows = Inr (col e)) \<longrightarrow>
     buildInputRecord wld requestData entityRows features numRows =
       Inr (NewRecord
             (map (\<lambda>v. \<lparr>field_Name = fv_Name v, field_Type = array_DataType (Values v)\<rparr>) features @
              map (\<lambda>e. \<lparr>field_Name = fst e, field_Type = array_DataType (col e)\<rparr>) requestData @
              map (\<lambda>e. \<lparr>field_Name = fst e, field_Type = array_DataType (col e)\<rparr>) entityRows)
             (map Values features @ map col requestData @ map col entityRows)
             numRows)) \<and>
   (requestData @ entityRows = pre @ (name, vals) # post \<and>
    (\<forall>e\<in>set pre. ProtoValuesToArrowArray wld (snd e) numRows = Inr (col e)) \<and>
    ProtoValuesToArrowArray wld vals numRows = Inl err \<longrightarrow>
     buildInputRecord wld requestData entityRows features numRows = Inl err \<and>
     GetTransformation s wld featureView requestData entityRows features numRows fullFeatureNames
       = (Return (None, Some err), []))"
proof (intro conjI impI)
  assume a: "\<forall>e\<in>set (requestData @ entityRows). ProtoValuesToArrowArray wld (snd e) numRows = Inr (col e)"
  have "add_converted (ProtoValuesToArrowArray wld) numRows (requestData @ entityRows) (fs, cs) =
     Inr (fs @ map (\<lambda>e. \<lparr>field_Name = fst e, field_Type = array_DataType (col e)\<rparr>) (requestData @ entityRows),
          cs @ map col (requestData @ entityRows))" for fs cs
    using a by (rule add_converted_ok [where col = col])
  then show "buildInputRecord wld requestData entityRows features numRows =
       Inr (NewRecord
             (map (\<lambda>v. \<lparr>field_Name = fv_Name v, field_Type = array_DataType (Values v)\<rparr>) features @
              map (\<lambda>e. \<lparr>field_Name = fst e, field_Type = array_DataType (col e)\<rparr>) requestData @
              map (\<lambda>e. \<lparr>field_Name = fst e, field_Type = array_DataType (col e)\<rparr>) entityRows)
             (map Values features @ map col requestData @ map col entityRows)
             numRows)"
    by (simp add: buildInputRecord_append add_features_eq)
next
  assume a: "requestData @ entityRows = pre @ (name, vals) # post \<and>
    (\<forall>e\<in>set pre. ProtoValuesToArrowArray wld (snd e) numRows = Inr (col e)) \<and>
    ProtoValuesToArrowArray wld vals numRows = Inl err"
  then have "add_converted (ProtoValuesToArrowArray wld) numRows (requestData @ entityRows)
               (add_features features ([], [])) = Inl err"
    using add_converted_fail [of pre "ProtoValuesToArrowArray wld" numRows col vals err name post]
    by (simp add: add_features_eq)
  then show b: "buildInputRecord wld requestData entityRows features numRows = Inl err"
    by (simp add: buildInputRecord_append)
  then show "GetTransformation s wld featureView requestData entityRows features numRows fullFeatureNames
       = (Return (None, Some err), [])"
    by (simp add: GetTransformation_def)
qed

theorem buildInputRecord_column_order_witness:
  "buildInputRecord (example_world ns_record) [(''r'', [5, 6])] [(''e'', [7, 8])] example_features 2
     = Inr example_input \<and>
   map field_Name (schema_Fields example_input) = [''f'', ''r'', ''e''] \<and>
   ProtoValuesToArrowArray checking_world [5, 6] 2 = Inr (Int64Array [5, 6]) \<and>
   ProtoValuesToArrowArray checking_world [7] 2 = Inl (External ''conversion'') \<and>
   buildInputRecord checking_world [(''r'', [5, 6])] [(''e'', [7])] example_features 2
     = Inl (External ''conversion'') \<and>
   GetTransformation example_service checking_world view_no_projection
     [(''r'', [5, 6])] [(''e'', [7])] example_features 2 True
     = (Return (None, Some (External ''conversion'')), [])"
proof -
  have h1: "\<forall>e\<in>set ([(''r'', [5, 6])] @ [(''e'', [7, 8])]).
              ProtoValuesToArrowArray (example_world ns_record) (snd e) 2 = Inr ((\<lambda>e. Int64Array (snd e)) e)"
    by (simp add: example_world_def)
  have h2: "[(''r'', [5, 6 :: int64])] @ [(''e'', [7])] = [(''r'', [5, 6])] @ (''e'', [7]) # []"
    by simp
  have h3: "\<forall>e\<in>set [(''r'', [5, 6 :: int64])].
              ProtoValuesToArrowArray checking_world (snd e) 2 = Inr ((\<lambda>e. Int64Array (snd e)) e)"
    by (simp add: checking_world_def example_world_def)
  have h4: "ProtoValuesToArrowArray checking_world [7] 2 = Inl (External ''conversion'')"
    by (simp add: checking_world_def example_world_def)
  have h5: "ProtoValuesToArrowArray checking_world [5, 6] 2 = Inr (Int64Array [5, 6])"
    by (simp add: checking_world_def example_world_def)
  have a: "buildInputRecord (example_world ns_record) [(''r'', [5, 6])] [(''e'', [7, 8])] example_features 2
     = Inr example_input"
    using buildInputRecord_column_order [of "[(''r'', [5, 6])]" "[(''e'', [7, 8])]" "example_world ns_record" 2
                 "\<lambda>e. Int64Array (snd e)" example_features] h1
    by (simp add: example_features_def example_input_def)
  have b: "buildInputRecord checking_world [(''r'', [5, 6])] [(''e'', [7])] example_features 2
     = Inl (External ''conversion'') \<and>
   GetTransformation example_service checking_world view_no_projection
     [(''r'', [5, 6])] [(''e'', [7])] example_features 2 True
     = (Return (None, Some (External ''conversion'')), [])"
    using buildInputRecord_column_order [of "[(''r'', [5, 6])]" "[(''e'', [7])]" checking_world 2 "\<lambda>e. Int64Array (snd e)"
                 example_features "[(''r'', [5, 6])]" "''e''" "[7]" "[]" "External ''conversion''"
                 example_service view_no_projection True] h2 h3 h4
    by simp
  have c: "map field_Name (schema_Fields example_input) = [''f'', ''r'', ''e'']"
    by (simp add: example_input_def NewRecord_def)
  from a b c h4 h5 show ?thesis by blast
qed

text \<open>
  C4. Once the input record is built: an error of the stream writer (on creation or on
  writing the record), of the dial or of the call is returned as it is with a nil list of
  vectors. The service is dialed once at most and called once at most. A serialization
  error leaves before the dial; a dial error leaves with no connection to release; after
  a successful dial the last thing that happens is the release of the connection,
  whether the function returns a result, returns an error or panics.
\<close>

theorem GetTransformation_failure_aborts:
  fixes s wld featureView requestData entityRows features numRows fullFeatureNames
  defines "out \<equiv> GetTransformation s wld featureView requestData entityRows features numRows fullFeatureNames"
  defines "built \<equiv> buildInputRecord wld requestData entityRows features numRows"
  shows "(built = Inr inputRecord \<and> NewFileWriter wld \<lparr>buf = [], offset = 0\<rparr> = (w1, Some err) \<longrightarrow>
            out = (Return (None, Some err), [])) \<and>
         (built = Inr inputRecord \<and> NewFileWriter wld \<lparr>buf = [], offset = 0\<rparr> = (w1, None) \<and>
          FileWriter_Write wld inputRecord w1 = (w2, Some err) \<longrightarrow>
            out = (Return (None, Some err), [])) \<and>
         (built = Inr inputRecord \<and> NewFileWriter wld \<lparr>buf = [], offset = 0\<rparr> = (w1, None) \<and>
          FileWriter_Write wld inputRecord w1 = (w2, None) \<and> Dial wld (endpoint s) = Some err \<longrightarrow>
            out = (Return (None, Some err), [Dialed (endpoint s)])) \<and>
         (built = Inr inputRecord \<and> NewFileWriter wld \<lparr>buf = [], offset = 0\<rparr> = (w1, None) \<and>
          FileWriter_Write wld inputRecord w1 = (w2, None) \<and> Dial wld (endpoint s) = None \<and>
          TransformFeatures wld \<lparr>OnDemandFeatureViewName = base_Name (Base featureView),
                                 Project = project s, TransformationInput = buf w2\<rparr> = Inl err \<longrightarrow>
            out = (Return (None, Some err),
                   [Dialed (endpoint s),
                    Called \<lparr>OnDemandFeatureViewName = base_Name (Base featureView),
                            Project = project s, TransformationInput = buf w2\<rparr>,
                    Closed])) \<and>
         dials (snd out) \<le> 1 \<and> calls (snd out) \<le> 1 \<and>
         (Dialed (endpoint s) \<in> set (snd out) \<and> Dial wld (endpoint s) = None \<longrightarrow> released (snd out))"
  unfolding out_def built_def
  by (auto simp: GetTransformation_def Let_def dials_def calls_def released_def
           split: sum.splits option.splits prod.splits)

theorem GetTransformation_failure_aborts_witness:
  "GetTransformation example_service failing_new_writer_world view_no_projection
     [(''r'', [5, 6])] [(''e'', [7, 8])] example_features 2 True
     = (Return (None, Some (External ''new writer'')), []) \<and>
   GetTransformation example_service failing_write_world view_no_projection
     [(''r'', [5, 6])] [(''e'', [7, 8])] example_features 2 True
     = (Return (None, Some (External ''write'')), []) \<and>
   GetTransformation example_service failing_dial_world view_no_projection
     [(''r'', [5, 6])] [(''e'', [7, 8])] example_features 2 True
     = (Return (None, Some (External ''dial'')), [Dialed ''localhost:6569'']) \<and>
   GetTransformation example_service failing_call_world view_no_projection
     [(''r'', [5, 6])] [(''e'', [7, 8])] example_features 2 True
     = (Return (None, Some (External ''call'')),
        [Dialed ''localhost:6569'',
         Called \<lparr>OnDemandFeatureViewName = ''odfv'', Project = ''feature_repo'',
                 TransformationInput = []\<rparr>,
         Closed]) \<and>
   released (snd (GetTransformation example_service (example_world ns_record) view_no_projection
     [(''r'', [5, 6])] [(''e'', [7, 8])] example_features 2 True))"
proof -
  have b: "buildInputRecord wld [(''r'', [5, 6])] [(''e'', [7, 8])] example_features 2 = Inr example_input"
    if "ProtoValuesToArrowArray wld = (\<lambda>vals numRows. Inr (Int64Array vals))" for wld :: "(int64, unit) world"
    using that by (simp add: buildInputRecord_def example_features_def example_input_def)
  have b1: "buildInputRecord failing_new_writer_world [(''r'', [5, 6])] [(''e'', [7, 8])] example_features 2
            = Inr example_input"
    by (rule b) (simp add: failing_new_writer_world_def example_world_def)
  have b2: "buildInputRecord failing_write_world [(''r'', [5, 6])] [(''e'', [7, 8])] example_features 2
            = Inr example_input"
    by (rule b) (simp add: failing_write_world_def example_world_def)
  have b3: "buildInputRecord failing_dial_world [(''r'', [5, 6])] [(''e'', [7, 8])] example_features 2
            = Inr example_input"
    by (rule b) (simp add: failing_dial_world_def example_world_def)
  have b4: "buildInputRecord failing_call_world [(''r'', [5, 6])] [(''e'', [7, 8])] example_features 2
            = Inr example_input"
    by (rule b) (simp add: failing_call_world_def example_world_def)
  have d: "Dialed (endpoint example_service)
             \<in> set (snd (GetTransformation example_service (example_world ns_record) view_no_projection
                   [(''r'', [5, 6])] [(''e'', [7, 8])] example_features 2 True))"
    by (simp add: GetTransformation_def buildInputRecord_def example_world_def example_features_def
          example_service_def)
  note w = GetTransformation_failure_aborts [where wld = failing_new_writer_world and requestData = "[(''r'', [5, 6])]"
                  and entityRows = "[(''e'', [7, 8])]" and features = example_features and numRows = 2
                  and inputRecord = example_input and ?w1.0 = "\<lparr>buf = [], offset = 0\<rparr>"
                  and err = "External ''new writer''" and s = example_service
                  and featureView = view_no_projection and fullFeatureNames = True]
  note x = GetTransformation_failure_aborts [where wld = failing_write_world and requestData = "[(''r'', [5, 6])]"
                  and entityRows = "[(''e'', [7, 8])]" and features = example_features and numRows = 2
                  and inputRecord = example_input and ?w1.0 = "\<lparr>buf = [], offset = 0\<rparr>"
                  and ?w2.0 = "\<lparr>buf = [], offset = 0\<rparr>"
                  and err = "External ''write''" and s = example_service
                  and featureView = view_no_projection and fullFeatureNames = True]
  note y = GetTransformation_failure_aborts [where wld = failing_dial_world and requestData = "[(''r'', [5, 6])]"
                  and entityRows = "[(''e'', [7, 8])]" and features = example_features and numRows = 2
                  and inputRecord = example_input and ?w1.0 = "\<lparr>buf = [], offset = 0\<rparr>"
                  and ?w2.0 = "\<lparr>buf = [], offset = 0\<rparr>"
                  and err = "External ''dial''" and s = example_service
                  and featureView = view_no_projection and fullFeatureNames = True]
  note z = GetTransformation_failure_aborts [where wld = failing_call_world and requestData = "[(''r'', [5, 6])]"
                  and entityRows = "[(''e'', [7, 8])]" and features = example_features and numRows = 2
                  and inputRecord = example_input and ?w1.0 = "\<lparr>buf = [], offset = 0\<rparr>"
                  and ?w2.0 = "\<lparr>buf = [], offset = 0\<rparr>"
                  and err = "External ''call''" and s = example_service
                  and featureView = view_no_projection and fullFeatureNames = True]
  note g = GetTransformation_failure_aborts [where wld = "example_world ns_record" and requestData = "[(''r'', [5, 6])]"
                  and entityRows = "[(''e'', [7, 8])]" and features = example_features and numRows = 2
                  and s = example_service
                  and featureView = view_no_projection and fullFeatureNames = True]
  have 1: "GetTransformation example_service failing_new_writer_world view_no_projection
     [(''r'', [5, 6])] [(''e'', [7, 8])] example_features 2 True
     = (Return (None, Some (External ''new writer'')), [])"
    using w b1 by (simp add: failing_new_writer_world_def example_world_def)
  have 2: "GetTransformation example_service failing_write_world view_no_projection
     [(''r'', [5, 6])] [(''e'', [7, 8])] example_features 2 True
     = (Return (None, Some (External ''write'')), [])"
    using x b2 by (simp add: failing_write_world_def example_world_def)
  have 3: "GetTransformation example_service failing_dial_world view_no_projection
     [(''r'', [5, 6])] [(''e'', [7, 8])] example_features 2 True
     = (Return (None, Some (External ''dial'')), [Dialed ''localhost:6569''])"
    using y b3 by (simp add: failing_dial_world_def example_world_def example_service_def)
  have 4: "GetTransformation example_service failing_call_world view_no_projection
     [(''r'', [5, 6])] [(''e'', [7, 8])] example_features 2 True
     = (Return (None, Some (External ''call'')),
        [Dialed ''localhost:6569'',
         Called \<lparr>OnDemandFeatureViewName = ''odfv'', Project = ''feature_repo'',
                 TransformationInput = []\<rparr>,
         Closed])"
    using z b4 by (simp add: failing_call_world_def example_world_def example_service_def
        view_no_projection_def)
  have 5: "released (snd (GetTransformation example_service (example_world ns_record) view_no_projection
     [(''r'', [5, 6])] [(''e'', [7, 8])] example_features 2 True))"
    using g d by (simp add: example_world_def)
  from 1 2 3 4 5 show ?thesis by blast
qed

section \<open>Properties of the request values\<close>






























lemma sint_scast_fits:
  assumes "fits_int32 x"
  shows "sint (scast x :: 32 word) = sint x"
proof -
  have "sint (scast x :: 32 word) = signed_take_bit 31 (sint x)"
    using sint_sbintrunc' [of "sint x", where ?'a = 32] by simp
  also have "\<dots> = sint x"
    using assms by (simp add: fits_int32_def signed_take_bit_int_eq_self)
  finally show ?thesis .
qed

text \<open>
  C9. Narrowing a column that is populated in the representation of the declared type
  returns it unchanged, and narrowing the result of a successful narrowing again returns
  it unchanged. Narrowing an int64 column whose elements all fit in 32 bits to the
  declared type INT32 clears the int64 representation and populates the int32
  representation with elements of the same values; when an element does not fit, it
  fails with a range error.
\<close>

theorem typecast_narrows_int64:
  "(matches val declared \<longrightarrow> typecastToEntitySchemaType val declared = Inr val) \<and>
   (typecastToEntitySchemaType val declared = Inr val' \<longrightarrow>
      typecastToEntitySchemaType val' declared = Inr val') \<and>
   (int64Val val = Some xs \<and> int32Val val = None \<and> list_all fits_int32 xs \<longrightarrow>
      typecastToEntitySchemaType val ValueType_INT32
        = Inr (val\<lparr>int64Val := None, int32Val := Some (map scast xs)\<rparr>) \<and>
      map sint (map scast xs :: 32 word list) = map sint xs) \<and>
   (int64Val val = Some xs \<and> int32Val val = None \<and> \<not> list_all fits_int32 xs \<longrightarrow>
      typecastToEntitySchemaType val ValueType_INT32 = Inl RangeError)"
proof (intro conjI impI)
  show "typecastToEntitySchemaType val declared = Inr val" if "matches val declared"
    using that by (simp add: typecastToEntitySchemaType_def)
  show "typecastToEntitySchemaType val' declared = Inr val'"
    if "typecastToEntitySchemaType val declared = Inr val'"
  proof -
    have "matches val' declared"
      using that
      by (cases declared)
         (auto simp: typecastToEntitySchemaType_def split: if_splits option.splits)
    then show ?thesis by (simp add: typecastToEntitySchemaType_def)
  qed
  show "typecastToEntitySchemaType val ValueType_INT32
        = Inr (val\<lparr>int64Val := None, int32Val := Some (map scast xs)\<rparr>)"
    if "int64Val val = Some xs \<and> int32Val val = None \<and> list_all fits_int32 xs"
    using that by (simp add: typecastToEntitySchemaType_def)
  show "map sint (map scast xs :: 32 word list) = map sint xs"
    if "int64Val val = Some xs \<and> int32Val val = None \<and> list_all fits_int32 xs"
    using that by (simp add: list_all_iff sint_scast_fits)
  show "typecastToEntitySchemaType val ValueType_INT32 = Inl RangeError"
    if "int64Val val = Some xs \<and> int32Val val = None \<and> \<not> list_all fits_int32 xs"
    using that by (simp add: typecastToEntitySchemaType_def)
qed

theorem typecast_narrows_int64_witness:
  "int64Val (no_representation\<lparr>int64Val := Some [0, 1, 2, 3, 4, 5, 6, 7, 8, 9]\<rparr>)
     = Some [0, 1, 2, 3, 4, 5, 6, 7, 8, 9] \<and>
   list_all fits_int32 [0, 1, 2, 3, 4, 5, 6, 7, 8, 9] \<and>
   typecastToEntitySchemaType (no_representation\<lparr>int64Val := Some [0, 1, 2, 3, 4, 5, 6, 7, 8, 9]\<rparr>)
       ValueType_INT32
     = Inr (no_representation\<lparr>int32Val := Some [0, 1, 2, 3, 4, 5, 6, 7, 8, 9]\<rparr>) \<and>
   matches (no_representation\<lparr>int32Val := Some [0, 1, 2, 3, 4, 5, 6, 7, 8, 9]\<rparr>) ValueType_INT32 \<and>
   typecastToEntitySchemaType (no_representation\<lparr>int32Val := Some [0, 1, 2, 3, 4, 5, 6, 7, 8, 9]\<rparr>)
       ValueType_INT32
     = Inr (no_representation\<lparr>int32Val := Some [0, 1, 2, 3, 4, 5, 6, 7, 8, 9]\<rparr>) \<and>
   \<not> list_all fits_int32 [0, 4294967296] \<and>
   typecastToEntitySchemaType (no_representation\<lparr>int64Val := Some [0, 4294967296]\<rparr>) ValueType_INT32
     = Inl RangeError"
proof -
  let ?val = "no_representation\<lparr>int64Val := Some [0, 1, 2, 3, 4, 5, 6, 7, 8, 9]\<rparr>"
  let ?val' = "no_representation\<lparr>int32Val := Some [0, 1, 2, 3, 4, 5, 6, 7, 8, 9]\<rparr>"
  let ?big = "no_representation\<lparr>int64Val := Some [0, 4294967296]\<rparr>"
  have h1: "int64Val ?val = Some [0, 1, 2, 3, 4, 5, 6, 7, 8, 9] \<and> int32Val ?val = None \<and>
            list_all fits_int32 [0, 1, 2, 3, 4, 5, 6, 7, 8, 9]"
    by (simp add: no_representation_def fits_int32_def)
  have h2: "matches ?val' ValueType_INT32"
    by (simp add: no_representation_def)
  have h3: "int64Val ?big = Some [0, 4294967296] \<and> int32Val ?big = None \<and>
            \<not> list_all fits_int32 [0, 4294967296]"
    by (simp add: no_representation_def fits_int32_def)
  have e: "?val\<lparr>int64Val := None, int32Val := Some (map scast [0, 1, 2, 3, 4, 5, 6, 7, 8, 9 :: int64])\<rparr> = ?val'"
    by (simp add: no_representation_def)
  from typecast_narrows_int64 [of ?val ValueType_INT32 ?val' "[0, 1, 2, 3, 4, 5, 6, 7, 8, 9]"] h1 e
  have a: "typecastToEntitySchemaType ?val ValueType_INT32 = Inr ?val'" by simp
  from typecast_narrows_int64 [of ?val' ValueType_INT32 ?val' "[]"] h2
  have b: "typecastToEntitySchemaType ?val' ValueType_INT32 = Inr ?val'" by simp
  from typecast_narrows_int64 [of ?big ValueType_INT32 ?big "[0, 4294967296]"] h3
  have c: "typecastToEntitySchemaType ?big ValueType_INT32 = Inl RangeError" by simp
  from h1 h2 h3 a b c show ?thesis by simp
qed

end
